theory Spec2Isabelle
  imports Main
begin

section \<open>Data model\<close>

text \<open>
  The campaign page (\<^verbatim>\<open>AppPage\<close>) and the Google settings tab (\<^verbatim>\<open>GoogleTab\<close>) are React
  components. Their \<^verbatim>\<open>useState\<close> cells become the fields of a record, every handler becomes a
  function from the state before the event to the state after it, and what a handler does to
  the outside (a call of the remote store, a \<^verbatim>\<open>window.alert\<close>) is returned beside the state as
  a list of effects, in program order. The answer of the remote store to each awaited call is an
  argument of the handler. JavaScript strings are modelled as \<^typ>\<open>string\<close>.
\<close>

text \<open>
  The interface \<^verbatim>\<open>Template\<close> is imported from \<^verbatim>\<open>features/templates/types\<close>. The handlers read
  its fields \<^verbatim>\<open>id\<close>, \<^verbatim>\<open>name\<close> and \<^verbatim>\<open>format\<close> only.
\<close>

record Template =
  id :: string
  name :: string
  format :: string

datatype TemplateType = body | attachment

record CampaignTemplate =
  template :: Template
  type :: TemplateType

datatype SmtpProvider = amazon | gmail

text \<open>
  A JavaScript number as the handlers meet it: \<^verbatim>\<open>parseInt\<close> gives an integer or \<^verbatim>\<open>NaN\<close>. The
  optional field \<^verbatim>\<open>sendingRate?: number\<close> is a \<open>jsnum option\<close>, \<open>None\<close> for \<^verbatim>\<open>undefined\<close>.
\<close>

datatype jsnum = Number int | NaN

text \<open>\<^verbatim>\<open>EmailEntry\<close> as \<^verbatim>\<open>availableEmails\<close> builds it; \<^verbatim>\<open>EmailWithRate extends EmailEntry\<close>.\<close>

record EmailEntry =
  address :: string
  smtpProvider :: SmtpProvider

record EmailWithRate = EmailEntry +
  sendingRate :: "jsnum option"

record SESEmail =
  address :: string
  testing :: "bool option"

record GoogleEmail =
  address :: string
  appPassword :: string
  testing :: "bool option"

record Campaign =
  id :: string
  name :: string
  isActive :: bool
  city :: string
  subjectLines :: "string list"
  daysTillClose :: string
  templates :: "CampaignTemplate list"
  emails :: "EmailWithRate list"
  lastModified :: string

definition cities :: "string list" where
  "cities = [''New York'', ''Los Angeles'', ''Chicago'', ''Houston'', ''Phoenix'',
     ''Philadelphia'', ''San Antonio'', ''San Diego'', ''Dallas'', ''San Jose'']"

subsection \<open>The remote store and the effects of a handler\<close>

text \<open>The error object of the remote store; the handlers read its \<^verbatim>\<open>code\<close>.\<close>

record PostgrestError =
  code :: string
  message :: string

text \<open>What a \<^verbatim>\<open>throw\<close> inside a \<^verbatim>\<open>try\<close> block carries to its \<^verbatim>\<open>catch\<close>.\<close>

datatype thrown = JsError string | Postgrest PostgrestError

text \<open>An object literal sent to the store is the list of its columns with their values.\<close>

datatype jsval = JString string | JBool bool | JNumber jsnum | JStrings "string list"

type_synonym row = "(string \<times> jsval) list"

text \<open>
  A call of the remote store: the table, the rows or values written, and the column
  equalities of its \<^verbatim>\<open>.eq\<close> filters.
\<close>

datatype request =
    AuthGetUser
  | Select string row
  | Insert string "row list"
  | Update string row row
  | Delete string row

datatype effect = Remote request | Alert string

subsection \<open>Component state\<close>

record AppPage =
  campaigns :: "Campaign list"
  currentCampaign :: "Campaign option"
  selectedTemplateId :: string
  isLoading :: bool

text \<open>
  The state of the Google tab that its add and remove handlers touch; \<^verbatim>\<open>googleEmails\<close> is the
  list shared through the email context.
\<close>

record GoogleTab =
  googleEmails :: "GoogleEmail list"
  newEmail :: string
  newAppPassword :: string
  emailError :: string
  passwordError :: string

section \<open>The campaign page\<close>

definition availableEmails :: "SESEmail list \<Rightarrow> GoogleEmail list \<Rightarrow> EmailEntry list" where
  "availableEmails sesEmails gEmails =
     map (\<lambda>email. \<lparr>EmailEntry.address = SESEmail.address email, smtpProvider = amazon\<rparr>) sesEmails @
     map (\<lambda>email. \<lparr>EmailEntry.address = GoogleEmail.address email, smtpProvider = gmail\<rparr>) gEmails"

text \<open>
  The effect that runs whenever \<^verbatim>\<open>sesEmails\<close> or \<^verbatim>\<open>googleEmails\<close> changes: every campaign of the
  list keeps the sender entries whose address is in the set of available addresses.
\<close>

definition reconcileEmails :: "SESEmail list \<Rightarrow> GoogleEmail list \<Rightarrow> AppPage \<Rightarrow> AppPage" where
  "reconcileEmails sesEmails gEmails st =
     (let allEmailAddresses = set (map EmailEntry.address (availableEmails sesEmails gEmails))
      in st\<lparr>campaigns :=
           map (\<lambda>campaign. campaign\<lparr>emails :=
                  filter (\<lambda>email. EmailEntry.address email \<in> allEmailAddresses) (emails campaign)\<rparr>)
               (campaigns st)\<rparr>)"

record ValidationResult =
  valid :: bool
  reason :: "string option"

definition validateCampaign :: "Campaign \<Rightarrow> ValidationResult" where
  "validateCampaign campaign =
     (if length (emails campaign) = 0 then
        \<lparr>valid = False, reason = Some ''At least one sender email is required''\<rparr>
      else if city campaign = [] then
        \<lparr>valid = False, reason = Some ''A target city must be selected''\<rparr>
      else if length (subjectLines campaign) = 0 then
        \<lparr>valid = False, reason = Some ''At least one subject line is required''\<rparr>
      else if \<not> list_ex (\<lambda>t. type t = body) (templates campaign) then
        \<lparr>valid = False, reason = Some ''A body template is required''\<rparr>
      else \<lparr>valid = True, reason = None\<rparr>)"

text \<open>
  \<^verbatim>\<open>fetchCampaigns\<close>: \<open>fetchUser\<close> is the answer of \<^verbatim>\<open>auth.getUser\<close>, \<open>campaignsData\<close> the
  answer of the select, its rows already in the shape of \<^verbatim>\<open>transformedCampaigns\<close>.
\<close>

record FetchEnv =
  fetchUser :: "string option"
  campaignsData :: "PostgrestError + Campaign list"

definition fetchCampaigns :: "FetchEnv \<Rightarrow> AppPage \<Rightarrow> AppPage \<times> effect list" where
  "fetchCampaigns env st =
     (case fetchUser env of
        None \<Rightarrow>
          (st\<lparr>isLoading := False\<rparr>,
           [Remote AuthGetUser, Alert ''Failed to load campaigns. Please try again.''])
      | Some uid \<Rightarrow>
          (case campaignsData env of
             Inl campaignsError \<Rightarrow>
               (st\<lparr>isLoading := False\<rparr>,
                [Remote AuthGetUser, Remote (Select ''campaigns'' [(''user_id'', JString uid)]),
                 Alert ''Failed to load campaigns. Please try again.''])
           | Inr transformedCampaigns \<Rightarrow>
               (st\<lparr>campaigns := transformedCampaigns, isLoading := False\<rparr>,
                [Remote AuthGetUser, Remote (Select ''campaigns'' [(''user_id'', JString uid)])])))"

definition handleCreateCampaign :: "string \<Rightarrow> AppPage \<Rightarrow> AppPage" where
  "handleCreateCampaign now st =
     st\<lparr>currentCampaign := Some
          \<lparr>Campaign.id = [], name = ''New Campaign'', isActive = False, city = hd cities,
           subjectLines = [], daysTillClose = ''NA'', templates = [], emails = [],
           lastModified = now\<rparr>\<rparr>"

text \<open>
  \<^verbatim>\<open>handleUpdateCampaign(updates)\<close>: the partial object \<^verbatim>\<open>updates\<close> is the function that
  overwrites its fields; \<open>now\<close> is \<^verbatim>\<open>new Date().toISOString()\<close>.
\<close>

definition handleUpdateCampaign :: "string \<Rightarrow> (Campaign \<Rightarrow> Campaign) \<Rightarrow> AppPage \<Rightarrow> AppPage" where
  "handleUpdateCampaign now updates st =
     (case currentCampaign st of
        None \<Rightarrow> st
      | Some cur \<Rightarrow> st\<lparr>currentCampaign := Some ((updates cur)\<lparr>lastModified := now\<rparr>)\<rparr>)"

definition handleAddTemplate :: "Template list \<Rightarrow> string \<Rightarrow> AppPage \<Rightarrow> AppPage \<times> effect list" where
  "handleAddTemplate allTemplates now st =
     (case currentCampaign st of
        None \<Rightarrow> (st, [])
      | Some cur \<Rightarrow>
          if selectedTemplateId st = [] then (st, [])
          else
            (case find (\<lambda>t. Template.id t = selectedTemplateId st) allTemplates of
               None \<Rightarrow> (st, [])
             | Some tmpl \<Rightarrow>
                 if list_ex (\<lambda>t. Template.id (template t) = Template.id tmpl) (templates cur) then
                   (st, [Alert ''This template has already been added to the campaign.''])
                 else
                   (let templateType = (if format tmpl = ''html'' then body else attachment)
                    in if templateType = body \<and> list_ex (\<lambda>t. type t = body) (templates cur) then
                         (st, [Alert ''Only one HTML template can be used as the email body. Please remove the existing body template first.''])
                       else
                         ((handleUpdateCampaign now
                             (\<lambda>c. c\<lparr>templates :=
                                  templates cur @ [\<lparr>template = tmpl, type = templateType\<rparr>]\<rparr>) st)
                            \<lparr>selectedTemplateId := []\<rparr>, []))))"




definition handleUpdateEmailRate :: "string \<Rightarrow> EmailWithRate \<Rightarrow> jsnum \<Rightarrow> AppPage \<Rightarrow> AppPage" where
  "handleUpdateEmailRate now email rate st =
     (case currentCampaign st of
        None \<Rightarrow> st
      | Some cur \<Rightarrow>
          handleUpdateCampaign now
            (\<lambda>c. c\<lparr>emails :=
                 map (\<lambda>e. if EmailEntry.address e = EmailEntry.address email
                           then e\<lparr>sendingRate := Some rate\<rparr> else e) (emails cur)\<rparr>) st)"

text \<open>
  The rate input of a sender: \<^verbatim>\<open>onChange\<close> passes \<^verbatim>\<open>parseInt(e.target.value, 10)\<close>, given here
  as the parsed number. The attributes \<^verbatim>\<open>min="1"\<close> and \<^verbatim>\<open>max="1440"\<close> of the input state the
  bounds of a rate.
\<close>

definition rateMin :: int where "rateMin = 1"

definition rateMax :: int where "rateMax = 1440"

definition rateInBounds :: "jsnum option \<Rightarrow> bool" where
  "rateInBounds r =
     (case r of Some (Number n) \<Rightarrow> rateMin \<le> n \<and> n \<le> rateMax | _ \<Rightarrow> False)"

definition handleDeleteCampaign :: "PostgrestError option \<Rightarrow> string \<Rightarrow> AppPage \<Rightarrow> AppPage \<times> effect list" where
  "handleDeleteCampaign deleteError cid st =
     (case deleteError of
        Some err \<Rightarrow>
          (st, [Remote (Delete ''campaigns'' [(''id'', JString cid)]),
                Alert ''Failed to delete campaign. Please try again.''])
      | None \<Rightarrow>
          (st\<lparr>campaigns := filter (\<lambda>c. Campaign.id c \<noteq> cid) (campaigns st)\<rparr>,
           [Remote (Delete ''campaigns'' [(''id'', JString cid)])]))"

text \<open>
  \<^verbatim>\<open>handleToggleActive\<close>: \<open>updateError\<close> is the answer of the update; the two time stamps
  that the handler takes are both given as \<open>now\<close>.
\<close>

definition handleToggleActive ::
  "string \<Rightarrow> PostgrestError option \<Rightarrow> string \<Rightarrow> bool \<Rightarrow> AppPage \<Rightarrow> AppPage \<times> effect list" where
  "handleToggleActive now updateError campaignId active st =
     (case find (\<lambda>c. Campaign.id c = campaignId) (campaigns st) of
        None \<Rightarrow> (st, [])
      | Some campaign \<Rightarrow>
          (let validation = validateCampaign campaign
           in if active \<and> \<not> valid validation then
                (st, [Alert (case reason validation of Some r \<Rightarrow> r | None \<Rightarrow> ''undefined'')])
              else
                (let upd = Remote (Update ''campaigns''
                             [(''is_active'', JBool active), (''updated_at'', JString now)]
                             [(''id'', JString campaignId)])
                 in case updateError of
                      Some err \<Rightarrow>
                        (st, [upd, Alert ''Failed to update campaign status. Please try again.''])
                    | None \<Rightarrow>
                        (st\<lparr>campaigns :=
                             map (\<lambda>c. if Campaign.id c = campaignId
                                       then c\<lparr>isActive := active, lastModified := now\<rparr> else c)
                                 (campaigns st)\<rparr>, [upd]))))"

text \<open>
  \<^verbatim>\<open>handleCampaignClick\<close>: \<open>onControl\<close> says that the click landed inside the toggle or on the
  delete button of the card.
\<close>

definition handleCampaignClick :: "bool \<Rightarrow> Campaign \<Rightarrow> AppPage \<Rightarrow> AppPage \<times> effect list" where
  "handleCampaignClick onControl campaign st =
     (if onControl then (st, [])
      else if isActive campaign then
        (st, [Alert ''Cannot edit an active campaign. Please deactivate it first.''])
      else (st\<lparr>currentCampaign := Some campaign\<rparr>, []))"

subsection \<open>Saving the draft\<close>

text \<open>
  The answers of the remote store to the awaited calls of \<^verbatim>\<open>handleSaveCampaign\<close>, one field
  for each call, in program order; \<open>refresh\<close> holds the answers to the \<^verbatim>\<open>fetchCampaigns\<close> that
  ends a save. A call of the store does not throw: it returns its error, and the handler
  throws the errors it reads.
\<close>

record SaveEnv =
  user :: "string option"
  insertResult :: "PostgrestError + string"
  updateError :: "PostgrestError option"
  deleteTemplatesError :: "PostgrestError option"
  deleteEmailsError :: "PostgrestError option"
  templatesError :: "PostgrestError option"
  emailsError :: "PostgrestError option"
  refresh :: FetchEnv

text \<open>\<^verbatim>\<open>email.sendingRate || 1440\<close>: \<^verbatim>\<open>undefined\<close>, \<^verbatim>\<open>NaN\<close> and \<^verbatim>\<open>0\<close> are falsy.\<close>

definition rateOrDefault :: "jsnum option \<Rightarrow> jsnum" where
  "rateOrDefault r =
     (case r of
        None \<Rightarrow> Number 1440
      | Some NaN \<Rightarrow> Number 1440
      | Some (Number n) \<Rightarrow> if n = 0 then Number 1440 else Number n)"

definition templateTypeName :: "TemplateType \<Rightarrow> string" where
  "templateTypeName ty = (case ty of body \<Rightarrow> ''body'' | attachment \<Rightarrow> ''attachment'')"

definition providerName :: "SmtpProvider \<Rightarrow> string" where
  "providerName p = (case p of amazon \<Rightarrow> ''amazon'' | gmail \<Rightarrow> ''gmail'')"

text \<open>The object literals written to the table \<^verbatim>\<open>campaigns\<close> by an insert and by an update.\<close>

definition campaignInsertRow :: "string \<Rightarrow> string \<Rightarrow> string \<Rightarrow> Campaign \<Rightarrow> row" where
  "campaignInsertRow now uid name' cur =
     [(''user_id'', JString uid),
      (''name'', JString name'),
      (''is_active'', JBool False),
      (''city'', JString (city cur)),
      (''subject_lines'', JStrings (subjectLines cur)),
      (''days_till_close'', JString (daysTillClose cur)),
      (''updated_at'', JString now)]"

definition campaignUpdateRow :: "string \<Rightarrow> string \<Rightarrow> Campaign \<Rightarrow> row" where
  "campaignUpdateRow now name' cur =
     [(''name'', JString name'),
      (''is_active'', JBool False),
      (''subject_lines'', JStrings (subjectLines cur)),
      (''days_till_close'', JString (daysTillClose cur)),
      (''updated_at'', JString now)]"

text \<open>The campaign row: an insert when the draft has no id yet, an update otherwise.\<close>

definition saveCampaignRow ::
  "string \<Rightarrow> SaveEnv \<Rightarrow> string \<Rightarrow> string \<Rightarrow> Campaign \<Rightarrow> (thrown + string) \<times> effect list" where
  "saveCampaignRow now env uid name' cur =
     (if Campaign.id cur = [] then
        (case insertResult env of
           Inl campaignError \<Rightarrow> Inl (Postgrest campaignError)
         | Inr newId \<Rightarrow> Inr newId,
         [Remote (Insert ''campaigns'' [campaignInsertRow now uid name' cur])])
      else
        (case updateError env of
           Some err \<Rightarrow> Inl (Postgrest err)
         | None \<Rightarrow> Inr (Campaign.id cur),
         [Remote (Update ''campaigns'' (campaignUpdateRow now name' cur)
            [(''id'', JString (Campaign.id cur))])]))"

text \<open>
  The two deletes of the association rows. Their results are awaited and dropped, so
  \<open>deleteTemplatesError\<close> and \<open>deleteEmailsError\<close> are not read.
\<close>

definition deleteAssociations :: "string \<Rightarrow> effect list" where
  "deleteAssociations campaignId =
     [Remote (Delete ''campaign_templates'' [(''campaign_id'', JString campaignId)]),
      Remote (Delete ''campaign_emails'' [(''campaign_id'', JString campaignId)])]"

definition insertTemplates :: "SaveEnv \<Rightarrow> string \<Rightarrow> Campaign \<Rightarrow> (thrown + unit) \<times> effect list" where
  "insertTemplates env campaignId cur =
     (if length (templates cur) > 0 then
        (case templatesError env of Some err \<Rightarrow> Inl (Postgrest err) | None \<Rightarrow> Inr (),
         [Remote (Insert ''campaign_templates''
            (map (\<lambda>ct. [(''campaign_id'', JString campaignId),
                         (''template_id'', JString (Template.id (template ct))),
                         (''template_type'', JString (templateTypeName (type ct)))])
                 (templates cur)))])
      else (Inr (), []))"

definition insertEmails ::
  "string \<Rightarrow> SaveEnv \<Rightarrow> string \<Rightarrow> Campaign \<Rightarrow> (thrown + unit) \<times> effect list" where
  "insertEmails now env campaignId cur =
     (if length (emails cur) > 0 then
        (case emailsError env of Some err \<Rightarrow> Inl (Postgrest err) | None \<Rightarrow> Inr (),
         [Remote (Insert ''campaign_emails''
            (map (\<lambda>email. [(''campaign_id'', JString campaignId),
                            (''email_address'', JString (EmailEntry.address email)),
                            (''provider'', JString (providerName (smtpProvider email))),
                            (''sending_rate'', JNumber (rateOrDefault (sendingRate email))),
                            (''updated_at'', JString now)])
                 (emails cur)))])
      else (Inr (), []))"

text \<open>
  The body of the \<^verbatim>\<open>try\<close> block up to the refresh: \<open>Inl\<close> is what it throws, and the
  effects are the calls made until then.
\<close>

definition trySaveCampaign ::
  "string \<Rightarrow> SaveEnv \<Rightarrow> string \<Rightarrow> Campaign \<Rightarrow> (thrown + unit) \<times> effect list" where
  "trySaveCampaign now env name' cur =
     (case user env of
        None \<Rightarrow> (Inl (JsError ''User not authenticated''), [Remote AuthGetUser])
      | Some uid \<Rightarrow>
          (case saveCampaignRow now env uid name' cur of
             (Inl e, fx1) \<Rightarrow> (Inl e, Remote AuthGetUser # fx1)
           | (Inr campaignId, fx1) \<Rightarrow>
               (case insertTemplates env campaignId cur of
                  (Inl e, fx2) \<Rightarrow>
                    (Inl e, Remote AuthGetUser # fx1 @ deleteAssociations campaignId @ fx2)
                | (Inr u, fx2) \<Rightarrow>
                    (case insertEmails now env campaignId cur of
                       (r, fx3) \<Rightarrow>
                         (r, Remote AuthGetUser # fx1 @ deleteAssociations campaignId
                               @ fx2 @ fx3)))))"

definition handleSaveCampaign ::
  "string \<Rightarrow> SaveEnv \<Rightarrow> string \<Rightarrow> AppPage \<Rightarrow> AppPage \<times> effect list" where
  "handleSaveCampaign now env name' st =
     (case currentCampaign st of
        None \<Rightarrow> (st, [])
      | Some cur \<Rightarrow>
          (case trySaveCampaign now env name' cur of
             (Inl e, fx) \<Rightarrow> (st, fx @ [Alert ''Failed to save campaign. Please try again.''])
           | (Inr u, fx) \<Rightarrow>
               (case fetchCampaigns (refresh env) st of
                  (st', fx') \<Rightarrow> (st'\<lparr>currentCampaign := None\<rparr>, fx @ fx'))))"

text \<open>The value rows that a list of effects writes to the table \<^verbatim>\<open>campaigns\<close>.\<close>

fun campaignWrites :: "effect list \<Rightarrow> row list" where
  "campaignWrites [] = []"
| "campaignWrites (Remote (Insert tbl rows) # fx) =
     (if tbl = ''campaigns'' then rows @ campaignWrites fx else campaignWrites fx)"
| "campaignWrites (Remote (Update tbl vals filt) # fx) =
     (if tbl = ''campaigns'' then vals # campaignWrites fx else campaignWrites fx)"
| "campaignWrites (x # fx) = campaignWrites fx"

definition alertsOf :: "effect list \<Rightarrow> string list" where
  "alertsOf fx = concat (map (\<lambda>x. case x of Alert m \<Rightarrow> [m] | Remote r \<Rightarrow> []) fx)"

definition requestsOf :: "effect list \<Rightarrow> request list" where
  "requestsOf fx = concat (map (\<lambda>x. case x of Remote r \<Rightarrow> [r] | Alert m \<Rightarrow> []) fx)"

section \<open>The Google settings tab\<close>

text \<open>
  \<^verbatim>\<open>/\s/\<close> on the characters of \<^typ>\<open>char\<close>: tab, line feed, vertical tab, form feed, carriage
  return, space and the no-break space.
\<close>

definition isSpace :: "char \<Rightarrow> bool" where
  "isSpace c = ((of_char c :: nat) \<in> {9, 10, 11, 12, 13, 32, 160})"

definition isAlnum :: "char \<Rightarrow> bool" where
  "isAlnum c =
     (let n = (of_char c :: nat)
      in (97 \<le> n \<and> n \<le> 122) \<or> (65 \<le> n \<and> n \<le> 90) \<or> (48 \<le> n \<and> n \<le> 57))"

text \<open>
  \<^verbatim>\<open>/^[^\s@]+@gmail\.com$/\<close>: the string ends with the ten characters \<^verbatim>\<open>@gmail.com\<close>, and
  what stands before them is not empty and has neither white space nor \<^verbatim>\<open>@\<close>.
\<close>

definition validateEmail :: "string \<Rightarrow> bool" where
  "validateEmail email =
     (let n = length email - 10
      in 10 < length email \<and> drop n email = ''@gmail.com''
         \<and> list_all (\<lambda>c. \<not> isSpace c \<and> c \<noteq> CHR ''@'') (take n email))"

definition validateAppPassword :: "string \<Rightarrow> bool" where
  "validateAppPassword password =
     (length password = 16 \<and> password \<noteq> [] \<and> list_all isAlnum password)"

record AddEnv =
  addUser :: "string option"
  insertError :: "PostgrestError option"

definition handleAddGoogleEmail :: "AddEnv \<Rightarrow> GoogleTab \<Rightarrow> GoogleTab \<times> effect list" where
  "handleAddGoogleEmail env st =
     (if \<not> validateEmail (newEmail st) then
        (st\<lparr>emailError := ''Please enter a valid Gmail address''\<rparr>, [])
      else if \<not> validateAppPassword (newAppPassword st) then
        (st\<lparr>passwordError := ''App password must be 16 characters long''\<rparr>, [])
      else if list_ex (\<lambda>email. GoogleEmail.address email = newEmail st) (googleEmails st) then
        (st\<lparr>emailError := ''This email is already in the list''\<rparr>, [])
      else
        (case addUser env of
           None \<Rightarrow> (st, [Remote AuthGetUser, Alert ''Failed to add email. Please try again.''])
         | Some uid \<Rightarrow>
             (let ins = Remote (Insert ''google_smtp_emails''
                          [[(''user_id'', JString uid),
                            (''address'', JString (newEmail st)),
                            (''app_password'', JString (newAppPassword st))]])
              in case insertError env of
                   Some err \<Rightarrow>
                     if code err = ''23505'' then
                       (st\<lparr>emailError := ''This email is already registered''\<rparr>,
                        [Remote AuthGetUser, ins])
                     else
                       (st, [Remote AuthGetUser, ins,
                             Alert ''Failed to add email. Please try again.''])
                 | None \<Rightarrow>
                     (st\<lparr>googleEmails := googleEmails st @
                            [\<lparr>GoogleEmail.address = newEmail st,
                              appPassword = newAppPassword st,
                              testing = None\<rparr>],
                         newEmail := [], newAppPassword := [],
                         emailError := [], passwordError := []\<rparr>,
                      [Remote AuthGetUser, ins]))))"

record RemoveEnv =
  removeUser :: "string option"
  removeError :: "PostgrestError option"

definition handleRemoveGoogleEmail ::
  "RemoveEnv \<Rightarrow> string \<Rightarrow> GoogleTab \<Rightarrow> GoogleTab \<times> effect list" where
  "handleRemoveGoogleEmail env addr st =
     (case removeUser env of
        None \<Rightarrow> (st, [Remote AuthGetUser, Alert ''Failed to remove email. Please try again.''])
      | Some uid \<Rightarrow>
          (let del = Remote (Delete ''google_smtp_emails''
                       [(''user_id'', JString uid), (''address'', JString addr)])
           in case removeError env of
                Some err \<Rightarrow>
                  (st, [Remote AuthGetUser, del,
                        Alert ''Failed to remove email. Please try again.''])
              | None \<Rightarrow>
                  (st\<lparr>googleEmails :=
                       filter (\<lambda>email. GoogleEmail.address email \<noteq> addr) (googleEmails st)\<rparr>,
                   [Remote AuthGetUser, del])))"

section \<open>Notions used in the statements\<close>

text \<open>The number of templates of a campaign whose role is body.\<close>

definition bodyCount :: "Campaign \<Rightarrow> nat" where
  "bodyCount c = length (filter (\<lambda>t. type t = body) (templates c))"

section \<open>Sample inputs\<close>

text \<open>Concrete campaigns, credentials and page states at which the theorems below are instantiated.\<close>

definition exHtml :: Template where
  "exHtml = \<lparr>Template.id = ''t1'', name = ''Welcome'', format = ''html''\<rparr>"

definition exHtml2 :: Template where
  "exHtml2 = \<lparr>Template.id = ''t2'', name = ''Offer'', format = ''html''\<rparr>"

definition exSender :: EmailWithRate where
  "exSender = \<lparr>EmailEntry.address = ''a@gmail.com'', smtpProvider = gmail, sendingRate = Some (Number 1440)\<rparr>"

definition exCampaign :: Campaign where
  "exCampaign = \<lparr>Campaign.id = ''c1'', name = ''Spring'', isActive = False, city = ''Chicago'',
     subjectLines = [''Hi''], daysTillClose = ''NA'',
     templates = [\<lparr>template = exHtml, type = body\<rparr>], emails = [exSender],
     lastModified = ''2024-01-01T00:00:00.000Z''\<rparr>"

definition exTwoBodies :: Campaign where
  "exTwoBodies = exCampaign\<lparr>templates := [\<lparr>template = exHtml, type = body\<rparr>, \<lparr>template = exHtml2, type = body\<rparr>]\<rparr>"

definition exPdf :: Template where
  "exPdf = \<lparr>Template.id = ''t3'', name = ''Brochure'', format = ''pdf''\<rparr>"

definition exTemplates :: "Template list" where
  "exTemplates = [exHtml, exHtml2, exPdf]"

definition exSesSender :: EmailWithRate where
  "exSesSender = \<lparr>EmailEntry.address = ''b@example.com'', smtpProvider = amazon, sendingRate = Some (Number 100)\<rparr>"

definition exActive :: Campaign where
  "exActive = exCampaign\<lparr>Campaign.id := ''c2'', name := ''Summer'', isActive := True\<rparr>"

definition exBrowsing :: AppPage where
  "exBrowsing = \<lparr>campaigns = [exCampaign\<lparr>emails := [exSender, exSesSender]\<rparr>, exActive], currentCampaign = None,
     selectedTemplateId = [], isLoading = False\<rparr>"

definition exEditing :: AppPage where
  "exEditing = \<lparr>campaigns = [exCampaign, exActive], currentCampaign = Some exCampaign,
     selectedTemplateId = ''t2'', isLoading = False\<rparr>"

definition exSes :: SESEmail where
  "exSes = \<lparr>SESEmail.address = ''a@gmail.com'', testing = None\<rparr>"

definition exGoogle :: GoogleEmail where
  "exGoogle = \<lparr>GoogleEmail.address = ''a@gmail.com'', appPassword = ''abcdefgh12345678'', testing = None\<rparr>"

definition exTab :: GoogleTab where
  "exTab = \<lparr>googleEmails = [exGoogle], newEmail = ''a@gmail.com'', newAppPassword = ''short'',
     emailError = [], passwordError = []\<rparr>"

definition exRemoveOk :: RemoveEnv where
  "exRemoveOk = \<lparr>removeUser = Some ''u1'', removeError = None\<rparr>"

definition exNow :: string where
  "exNow = ''2024-02-02T10:00:00.000Z''"




definition exError :: PostgrestError where
  "exError = \<lparr>code = ''57014'', message = ''canceling statement due to statement timeout''\<rparr>"

definition exConflict :: PostgrestError where
  "exConflict = \<lparr>code = ''23505'', message = ''duplicate key value violates unique constraint''\<rparr>"

definition exSaveOk :: SaveEnv where
  "exSaveOk = \<lparr>user = Some ''u1'', insertResult = Inr ''c9'', updateError = None,
     deleteTemplatesError = None, deleteEmailsError = None, templatesError = None,
     emailsError = None,
     refresh = \<lparr>fetchUser = Some ''u1'', campaignsData = Inr [exCampaign\<lparr>isActive := False\<rparr>]\<rparr>\<rparr>"

definition exDeleteFails :: SaveEnv where
  "exDeleteFails = exSaveOk\<lparr>deleteTemplatesError := Some exError\<rparr>"

definition exRefreshFails :: SaveEnv where
  "exRefreshFails = exSaveOk\<lparr>refresh := \<lparr>fetchUser = Some ''u1'', campaignsData = Inl exError\<rparr>\<rparr>"

definition exAddOk :: AddEnv where
  "exAddOk = \<lparr>addUser = Some ''u1'', insertError = None\<rparr>"

definition exAddConflict :: AddEnv where
  "exAddConflict = \<lparr>addUser = Some ''u1'', insertError = Some exConflict\<rparr>"

definition exTabDuplicate :: GoogleTab where
  "exTabDuplicate = exTab\<lparr>newAppPassword := ''abcdefgh12345678''\<rparr>"

definition exTabFresh :: GoogleTab where
  "exTabFresh = exTab\<lparr>newEmail := ''c@gmail.com'', newAppPassword := ''abcdefgh12345678''\<rparr>"

section \<open>Validation of a campaign\<close>

text \<open>
  C1. \<^verbatim>\<open>validateCampaign\<close> answers valid exactly when the campaign has a sender email, a
  non-empty city, a subject line and at least one template of role body; otherwise its reason
  is that of the first of these four checks that fails, in this order.
\<close>

theorem validateCampaign_first_failure:
  "(valid (validateCampaign c) \<longleftrightarrow>
      emails c \<noteq> [] \<and> city c \<noteq> [] \<and> subjectLines c \<noteq> [] \<and> (\<exists>t \<in> set (templates c). type t = body))
   \<and> (valid (validateCampaign c) \<longrightarrow> reason (validateCampaign c) = None)
   \<and> (emails c = [] \<longrightarrow>
        validateCampaign c = \<lparr>valid = False, reason = Some ''At least one sender email is required''\<rparr>)
   \<and> (emails c \<noteq> [] \<and> city c = [] \<longrightarrow>
        validateCampaign c = \<lparr>valid = False, reason = Some ''A target city must be selected''\<rparr>)
   \<and> (emails c \<noteq> [] \<and> city c \<noteq> [] \<and> subjectLines c = [] \<longrightarrow>
        validateCampaign c = \<lparr>valid = False, reason = Some ''At least one subject line is required''\<rparr>)
   \<and> (emails c \<noteq> [] \<and> city c \<noteq> [] \<and> subjectLines c \<noteq> [] \<and> \<not> (\<exists>t \<in> set (templates c). type t = body) \<longrightarrow>
        validateCampaign c = \<lparr>valid = False, reason = Some ''A body template is required''\<rparr>)"
  by (simp add: validateCampaign_def list_ex_iff)

theorem validateCampaign_first_failure_witness:
  "valid (validateCampaign exCampaign)
   \<and> validateCampaign (exCampaign\<lparr>emails := []\<rparr>) =
       \<lparr>valid = False, reason = Some ''At least one sender email is required''\<rparr>"
proof -
  have a: "emails exCampaign \<noteq> [] \<and> city exCampaign \<noteq> [] \<and> subjectLines exCampaign \<noteq> []
           \<and> (\<exists>t \<in> set (templates exCampaign). type t = body)"
    by (simp add: exCampaign_def)
  have b: "emails (exCampaign\<lparr>emails := []\<rparr>) = []" by simp
  from a b show ?thesis
    using validateCampaign_first_failure [of exCampaign]
      validateCampaign_first_failure [of "exCampaign\<lparr>emails := []\<rparr>"]
    by blast
qed

text \<open>
  A campaign with two body templates is valid, so validity does not mean exactly one body
  template.
\<close>

theorem validateCampaign_two_bodies_counterexample:
  "\<not> (valid (validateCampaign exTwoBodies) \<longleftrightarrow>
        emails exTwoBodies \<noteq> [] \<and> city exTwoBodies \<noteq> [] \<and> subjectLines exTwoBodies \<noteq> []
        \<and> bodyCount exTwoBodies = 1)"
  by (simp add: validateCampaign_def exTwoBodies_def exCampaign_def bodyCount_def)

section \<open>Reconciliation of the sender lists\<close>

lemma availableEmails_addresses:
  "set (map EmailEntry.address (availableEmails ses gs)) =
     SESEmail.address ` set ses \<union> GoogleEmail.address ` set gs"
  by (auto simp: availableEmails_def)

lemma reconcileEmails_campaigns:
  "campaigns (reconcileEmails ses gs st) =
     map (\<lambda>c. c\<lparr>emails := filter (\<lambda>e. EmailEntry.address e \<in>
            SESEmail.address ` set ses \<union> GoogleEmail.address ` set gs) (emails c)\<rparr>) (campaigns st)"
  unfolding reconcileEmails_def Let_def availableEmails_addresses by simp

text \<open>
  C2. After a change of the credential lists, the reconciliation keeps the list of campaigns
  in place; in every campaign the sender entries are those of before whose address belongs to
  a credential, in their order, and no other field of the campaign differs. The draft is not
  touched.
\<close>

theorem reconcileEmails_frame:
  "length (campaigns (reconcileEmails ses gs st)) = length (campaigns st)
   \<and> currentCampaign (reconcileEmails ses gs st) = currentCampaign st
   \<and> (\<forall>i < length (campaigns st).
        emails (campaigns (reconcileEmails ses gs st) ! i) =
          filter (\<lambda>e. EmailEntry.address e \<in> SESEmail.address ` set ses \<union> GoogleEmail.address ` set gs)
            (emails (campaigns st ! i))
        \<and> Campaign.id (campaigns (reconcileEmails ses gs st) ! i) = Campaign.id (campaigns st ! i)
        \<and> Campaign.name (campaigns (reconcileEmails ses gs st) ! i) = Campaign.name (campaigns st ! i)
        \<and> isActive (campaigns (reconcileEmails ses gs st) ! i) = isActive (campaigns st ! i)
        \<and> city (campaigns (reconcileEmails ses gs st) ! i) = city (campaigns st ! i)
        \<and> subjectLines (campaigns (reconcileEmails ses gs st) ! i) = subjectLines (campaigns st ! i)
        \<and> daysTillClose (campaigns (reconcileEmails ses gs st) ! i) = daysTillClose (campaigns st ! i)
        \<and> templates (campaigns (reconcileEmails ses gs st) ! i) = templates (campaigns st ! i)
        \<and> lastModified (campaigns (reconcileEmails ses gs st) ! i) = lastModified (campaigns st ! i))"
proof -
  have "currentCampaign (reconcileEmails ses gs st) = currentCampaign st"
    by (simp add: reconcileEmails_def Let_def)
  then show ?thesis
    by (simp add: reconcileEmails_campaigns)
qed

theorem reconcileEmails_frame_witness:
  "0 < length (campaigns exBrowsing)
   \<and> emails (campaigns (reconcileEmails [] [exGoogle] exBrowsing) ! 0) = [exSender]
   \<and> city (campaigns (reconcileEmails [] [exGoogle] exBrowsing) ! 0) = ''Chicago''"
proof -
  have n: "0 < length (campaigns exBrowsing)" by (simp add: exBrowsing_def)
  have f: "filter (\<lambda>e. EmailEntry.address e \<in> SESEmail.address ` set [] \<union> GoogleEmail.address ` set [exGoogle])
            (emails (campaigns exBrowsing ! 0)) = [exSender]"
    by (simp add: exBrowsing_def exSender_def exSesSender_def exGoogle_def)
  have c: "city (campaigns exBrowsing ! 0) = ''Chicago''"
    by (simp add: exBrowsing_def exCampaign_def)
  note r = reconcileEmails_frame [of "[]" "[exGoogle]" exBrowsing, THEN conjunct2, THEN conjunct2,
      rule_format, OF n]
  have e: "emails (campaigns (reconcileEmails [] [exGoogle] exBrowsing) ! 0) = [exSender]"
    using r [THEN conjunct1] by (simp only: f)
  have "city (campaigns (reconcileEmails [] [exGoogle] exBrowsing) ! 0) = ''Chicago''"
    using r [THEN conjunct2, THEN conjunct2, THEN conjunct2, THEN conjunct2, THEN conjunct1]
    by (simp only: c)
  with n e show ?thesis by (intro conjI)
qed

text \<open>
  C10. A sender entry survives the reconciliation exactly when some credential, of either
  provider, has its address; the provider of the entry plays no part. So an entry whose address
  is held by an SES credential stays when the Google credential of the same address is removed.
\<close>

theorem reconcileEmails_by_address:
  assumes "i < length (campaigns st)" and "e \<in> set (emails (campaigns st ! i))"
  shows "(e \<in> set (emails (campaigns (reconcileEmails ses gs st) ! i)) \<longleftrightarrow>
            EmailEntry.address e \<in> SESEmail.address ` set ses
            \<or> EmailEntry.address e \<in> GoogleEmail.address ` set gs)
         \<and> (EmailEntry.address e \<in> SESEmail.address ` set ses \<longrightarrow>
              e \<in> set (emails (campaigns (reconcileEmails ses
                     (googleEmails (fst (handleRemoveGoogleEmail env (EmailEntry.address e) g))) st) ! i)))"
  using assms by (simp add: reconcileEmails_campaigns)

theorem reconcileEmails_by_address_witness:
  "0 < length (campaigns exBrowsing)
   \<and> exSender \<in> set (emails (campaigns exBrowsing ! 0))
   \<and> smtpProvider exSender = gmail
   \<and> EmailEntry.address exSender \<in> SESEmail.address ` set [exSes]
   \<and> googleEmails (fst (handleRemoveGoogleEmail exRemoveOk (EmailEntry.address exSender) exTab)) = []
   \<and> exSender \<in> set (emails (campaigns (reconcileEmails [exSes]
         (googleEmails (fst (handleRemoveGoogleEmail exRemoveOk (EmailEntry.address exSender) exTab)))
         exBrowsing) ! 0))"
proof -
  have n: "0 < length (campaigns exBrowsing)" by (simp add: exBrowsing_def)
  have m: "exSender \<in> set (emails (campaigns exBrowsing ! 0))" by (simp add: exBrowsing_def)
  have p: "smtpProvider exSender = gmail" by (simp add: exSender_def)
  have a: "EmailEntry.address exSender \<in> SESEmail.address ` set [exSes]"
    by (simp add: exSender_def exSes_def)
  have g: "googleEmails (fst (handleRemoveGoogleEmail exRemoveOk (EmailEntry.address exSender) exTab)) = []"
    by (simp add: handleRemoveGoogleEmail_def exRemoveOk_def exTab_def exSender_def exGoogle_def)
  from reconcileEmails_by_address [OF n m, of "[exSes]" _ exRemoveOk exTab] a
  have "exSender \<in> set (emails (campaigns (reconcileEmails [exSes]
         (googleEmails (fst (handleRemoveGoogleEmail exRemoveOk (EmailEntry.address exSender) exTab)))
         exBrowsing) ! 0))"
    by blast
  with n m p a g show ?thesis by blast
qed

section \<open>Opening a campaign\<close>

text \<open>
  C7. In the list view (no draft), a click on the card of an active campaign shows a message
  and changes nothing: there is still no draft and the list is the same. A click on the card of
  an inactive campaign makes it the draft.
\<close>

theorem handleCampaignClick_active_rejected:
  assumes "currentCampaign st = None"
  shows "(isActive c \<longrightarrow>
            handleCampaignClick False c st =
              (st, [Alert ''Cannot edit an active campaign. Please deactivate it first.''])
            \<and> currentCampaign (fst (handleCampaignClick False c st)) = None
            \<and> campaigns (fst (handleCampaignClick False c st)) = campaigns st)
         \<and> (\<not> isActive c \<longrightarrow>
            handleCampaignClick False c st = (st\<lparr>currentCampaign := Some c\<rparr>, []))"
  using assms by (simp add: handleCampaignClick_def)

theorem handleCampaignClick_active_rejected_witness:
  "currentCampaign exBrowsing = None \<and> isActive exActive \<and> \<not> isActive exCampaign
   \<and> handleCampaignClick False exActive exBrowsing =
        (exBrowsing, [Alert ''Cannot edit an active campaign. Please deactivate it first.''])
   \<and> handleCampaignClick False exCampaign exBrowsing =
        (exBrowsing\<lparr>currentCampaign := Some exCampaign\<rparr>, [])"
proof -
  have b: "currentCampaign exBrowsing = None" by (simp add: exBrowsing_def)
  have a: "isActive exActive" by (simp add: exActive_def)
  have i: "\<not> isActive exCampaign" by (simp add: exCampaign_def)
  from a i b show ?thesis
    using handleCampaignClick_active_rejected [OF b, of exActive]
      handleCampaignClick_active_rejected [OF b, of exCampaign]
    by blast
qed

section \<open>Editing the draft\<close>

lemma handleAddTemplate_found:
  assumes "currentCampaign st = Some cur"
    and "selectedTemplateId st \<noteq> []"
    and "find (\<lambda>t. Template.id t = selectedTemplateId st) allTemplates = Some tmpl"
  shows "handleAddTemplate allTemplates now st =
     (if list_ex (\<lambda>t. Template.id (template t) = Template.id tmpl) (templates cur) then
        (st, [Alert ''This template has already been added to the campaign.''])
      else if format tmpl = ''html'' \<and> list_ex (\<lambda>t. type t = body) (templates cur) then
        (st, [Alert ''Only one HTML template can be used as the email body. Please remove the existing body template first.''])
      else
        (st\<lparr>currentCampaign := Some (cur\<lparr>templates := templates cur @
                     [\<lparr>template = tmpl,
                       type = (if format tmpl = ''html'' then body else attachment)\<rparr>],
                     lastModified := now\<rparr>),
                  selectedTemplateId := []\<rparr>, []))"
  unfolding handleAddTemplate_def handleUpdateCampaign_def Let_def
  using assms by (simp del: String.char.inject list.inject)

text \<open>
  C3. With a draft open and a selected template that exists: a template whose id is already in
  the draft is refused with a message; a template of format \<^verbatim>\<open>html\<close> is refused with a
  message when the draft has a body template; in both cases the state is the one before. In
  every other case the template is appended with the role that its format alone decides:
  body for \<^verbatim>\<open>html\<close>, attachment otherwise.
\<close>

theorem handleAddTemplate_rejects:
  assumes "currentCampaign st = Some cur"
    and "selectedTemplateId st \<noteq> []"
    and "find (\<lambda>t. Template.id t = selectedTemplateId st) allTemplates = Some tmpl"
  shows "(list_ex (\<lambda>t. Template.id (template t) = Template.id tmpl) (templates cur) \<longrightarrow>
            handleAddTemplate allTemplates now st =
              (st, [Alert ''This template has already been added to the campaign.'']))
         \<and> (list_ex (\<lambda>t. type t = body) (templates cur) \<and> format tmpl = ''html'' \<longrightarrow>
            fst (handleAddTemplate allTemplates now st) = st
            \<and> snd (handleAddTemplate allTemplates now st) =
                [Alert (if list_ex (\<lambda>t. Template.id (template t) = Template.id tmpl) (templates cur)
                        then ''This template has already been added to the campaign.''
                        else ''Only one HTML template can be used as the email body. Please remove the existing body template first.'')])
         \<and> (\<not> list_ex (\<lambda>t. Template.id (template t) = Template.id tmpl) (templates cur)
            \<and> \<not> (list_ex (\<lambda>t. type t = body) (templates cur) \<and> format tmpl = ''html'') \<longrightarrow>
            handleAddTemplate allTemplates now st =
              (st\<lparr>currentCampaign := Some (cur\<lparr>templates := templates cur @
                     [\<lparr>template = tmpl,
                       type = (if format tmpl = ''html'' then body else attachment)\<rparr>],
                     lastModified := now\<rparr>),
                  selectedTemplateId := []\<rparr>, []))"
proof (intro conjI impI)
  assume "list_ex (\<lambda>t. Template.id (template t) = Template.id tmpl) (templates cur)"
  then show "handleAddTemplate allTemplates now st =
              (st, [Alert ''This template has already been added to the campaign.''])"
    by (simp only: handleAddTemplate_found [OF assms] if_True)
next
  assume h: "list_ex (\<lambda>t. type t = body) (templates cur) \<and> format tmpl = ''html''"
  show "fst (handleAddTemplate allTemplates now st) = st"
    using h by (simp only: handleAddTemplate_found [OF assms] if_True simp_thms fst_conv split: if_split)
  show "snd (handleAddTemplate allTemplates now st) =
                [Alert (if list_ex (\<lambda>t. Template.id (template t) = Template.id tmpl) (templates cur)
                        then ''This template has already been added to the campaign.''
                        else ''Only one HTML template can be used as the email body. Please remove the existing body template first.'')]"
    using h by (cases "list_ex (\<lambda>t. Template.id (template t) = Template.id tmpl) (templates cur)")
      (simp_all only: handleAddTemplate_found [OF assms] if_True if_False simp_thms snd_conv)
next
  assume "\<not> list_ex (\<lambda>t. Template.id (template t) = Template.id tmpl) (templates cur)
            \<and> \<not> (list_ex (\<lambda>t. type t = body) (templates cur) \<and> format tmpl = ''html'')"
  then show "handleAddTemplate allTemplates now st =
              (st\<lparr>currentCampaign := Some (cur\<lparr>templates := templates cur @
                     [\<lparr>template = tmpl,
                       type = (if format tmpl = ''html'' then body else attachment)\<rparr>],
                     lastModified := now\<rparr>),
                  selectedTemplateId := []\<rparr>, [])"
    by (simp only: handleAddTemplate_found [OF assms] if_False simp_thms conj_commute)
qed

theorem handleAddTemplate_rejects_witness:
  "currentCampaign exEditing = Some exCampaign
   \<and> selectedTemplateId exEditing \<noteq> []
   \<and> find (\<lambda>t. Template.id t = selectedTemplateId exEditing) exTemplates = Some exHtml2
   \<and> list_ex (\<lambda>t. type t = body) (templates exCampaign) \<and> format exHtml2 = ''html''
   \<and> fst (handleAddTemplate exTemplates exNow exEditing) = exEditing
   \<and> snd (handleAddTemplate exTemplates exNow exEditing) =
        [Alert ''Only one HTML template can be used as the email body. Please remove the existing body template first.'']"
proof -
  have c: "currentCampaign exEditing = Some exCampaign" by (simp add: exEditing_def)
  have s: "selectedTemplateId exEditing \<noteq> []" by (simp add: exEditing_def)
  have f: "find (\<lambda>t. Template.id t = selectedTemplateId exEditing) exTemplates = Some exHtml2"
    by (simp add: exEditing_def exTemplates_def exHtml_def exHtml2_def)
  have b: "list_ex (\<lambda>t. type t = body) (templates exCampaign) \<and> format exHtml2 = ''html''"
    by (simp add: exCampaign_def exHtml2_def)
  have d: "\<not> list_ex (\<lambda>t. Template.id (template t) = Template.id exHtml2) (templates exCampaign)"
    by (simp add: exCampaign_def exHtml2_def exHtml_def)
  from handleAddTemplate_rejects [OF c s f, of exNow] b
  have "fst (handleAddTemplate exTemplates exNow exEditing) = exEditing
        \<and> snd (handleAddTemplate exTemplates exNow exEditing) =
                [Alert (if list_ex (\<lambda>t. Template.id (template t) = Template.id exHtml2) (templates exCampaign)
                        then ''This template has already been added to the campaign.''
                        else ''Only one HTML template can be used as the email body. Please remove the existing body template first.'')]"
    by blast
  with d have "fst (handleAddTemplate exTemplates exNow exEditing) = exEditing
        \<and> snd (handleAddTemplate exTemplates exNow exEditing) =
            [Alert ''Only one HTML template can be used as the email body. Please remove the existing body template first.'']"
    by (simp only: if_False)
  with c s f b show ?thesis by blast
qed







text \<open>
  The rate update replaces the rate of the entries with the given address by the number it is
  given and stamps the draft; it returns a state only, so it makes no call of the store.
\<close>

lemma handleUpdateEmailRate_stores:
  assumes "currentCampaign st = Some cur"
  shows "handleUpdateEmailRate now email rate st =
     st\<lparr>currentCampaign := Some (cur\<lparr>emails :=
          map (\<lambda>e. if EmailEntry.address e = EmailEntry.address email
                    then e\<lparr>sendingRate := Some rate\<rparr> else e) (emails cur),
          lastModified := now\<rparr>)\<rparr>"
  using assms by (simp add: handleUpdateEmailRate_def handleUpdateCampaign_def)

text \<open>
  C5. A rate update keeps the stored rate within the bounds 1 to 1440. The handler does not:
  asked for 5000, as the rate input passes it when that number is typed, it stores 5000, which
  is outside the bounds that the input declares.
\<close>

theorem handleUpdateEmailRate_out_of_bounds:
  "currentCampaign (handleUpdateEmailRate exNow exSender (Number 5000) exEditing) =
     Some (exCampaign\<lparr>emails := [exSender\<lparr>sendingRate := Some (Number 5000)\<rparr>],
                      lastModified := exNow\<rparr>)
   \<and> \<not> rateInBounds (Some (Number 5000))"
  by (simp add: handleUpdateEmailRate_def handleUpdateCampaign_def exEditing_def exCampaign_def
      rateInBounds_def rateMin_def rateMax_def)

section \<open>Saving\<close>

lemma campaignWrites_append:
  "campaignWrites (xs @ ys) = campaignWrites xs @ campaignWrites ys"
  by (induction xs rule: campaignWrites.induct) simp_all

lemma campaignWrites_deleteAssociations: "campaignWrites (deleteAssociations cid) = []"
  by (simp add: deleteAssociations_def)

lemma campaignWrites_insertTemplates: "campaignWrites (snd (insertTemplates env cid cur)) = []"
  by (simp add: insertTemplates_def)

lemma campaignWrites_insertEmails: "campaignWrites (snd (insertEmails now env cid cur)) = []"
  by (simp add: insertEmails_def)

lemma campaignWrites_fetchCampaigns: "campaignWrites (snd (fetchCampaigns env st)) = []"
  by (simp add: fetchCampaigns_def split: option.split sum.split)

lemma saveCampaignRow_effects:
  "snd (saveCampaignRow now env uid name' cur) =
     [Remote (if Campaign.id cur = [] then Insert ''campaigns'' [campaignInsertRow now uid name' cur]
              else Update ''campaigns'' (campaignUpdateRow now name' cur)
                     [(''id'', JString (Campaign.id cur))])]"
  by (simp add: saveCampaignRow_def)

lemma campaignWrites_saveCampaignRow:
  "campaignWrites (snd (saveCampaignRow now env uid name' cur)) =
     [if Campaign.id cur = [] then campaignInsertRow now uid name' cur
      else campaignUpdateRow now name' cur]"
  by (simp add: saveCampaignRow_effects)

text \<open>With a signed-in user, the body of the save sends the campaign row and writes no other.\<close>

lemma trySaveCampaign_writes:
  assumes "user env = Some uid"
  shows "campaignWrites (snd (trySaveCampaign now env name' cur)) =
           [if Campaign.id cur = [] then campaignInsertRow now uid name' cur
            else campaignUpdateRow now name' cur]
         \<and> hd (snd (saveCampaignRow now env uid name' cur))
             \<in> set (snd (trySaveCampaign now env name' cur))"
proof -
  obtain r1 fx1 where s1: "saveCampaignRow now env uid name' cur = (r1, fx1)"
    by (cases "saveCampaignRow now env uid name' cur")
  have w1: "campaignWrites fx1 = [if Campaign.id cur = [] then campaignInsertRow now uid name' cur
      else campaignUpdateRow now name' cur]"
    using campaignWrites_saveCampaignRow [of now env uid name' cur] s1 by simp
  have h1: "hd fx1 \<in> set fx1"
    using saveCampaignRow_effects [of now env uid name' cur] s1 by simp
  show ?thesis
  proof (cases r1)
    case (Inl e)
    then show ?thesis using assms s1 w1 h1 by (simp add: trySaveCampaign_def)
  next
    case (Inr cid)
    obtain r2 fx2 where s2: "insertTemplates env cid cur = (r2, fx2)"
      by (cases "insertTemplates env cid cur")
    have w2: "campaignWrites fx2 = []"
      using campaignWrites_insertTemplates [of env cid cur] s2 by simp
    obtain r3 fx3 where s3: "insertEmails now env cid cur = (r3, fx3)"
      by (cases "insertEmails now env cid cur")
    have w3: "campaignWrites fx3 = []"
      using campaignWrites_insertEmails [of now env cid cur] s3 by simp
    show ?thesis
      using assms s1 Inr s2 s3 w1 w2 w3 h1
      by (cases r2)
        (simp_all add: trySaveCampaign_def campaignWrites_append campaignWrites_deleteAssociations)
  qed
qed

lemma trySaveCampaign_no_user:
  "user env = None \<Longrightarrow>
     trySaveCampaign now env name' cur = (Inl (JsError ''User not authenticated''), [Remote AuthGetUser])"
  by (simp add: trySaveCampaign_def)

text \<open>What a save returns, by the outcome of its body.\<close>

lemma handleSaveCampaign_cases:
  assumes "currentCampaign st = Some cur"
  shows "handleSaveCampaign now env name' st =
     (if isl (fst (trySaveCampaign now env name' cur)) then
        (st, snd (trySaveCampaign now env name' cur)
               @ [Alert ''Failed to save campaign. Please try again.''])
      else
        ((fst (fetchCampaigns (refresh env) st))\<lparr>currentCampaign := None\<rparr>,
         snd (trySaveCampaign now env name' cur) @ snd (fetchCampaigns (refresh env) st)))"
proof -
  obtain r fx where t: "trySaveCampaign now env name' cur = (r, fx)"
    by (cases "trySaveCampaign now env name' cur")
  obtain st' fx' where f: "fetchCampaigns (refresh env) st = (st', fx')"
    by (cases "fetchCampaigns (refresh env) st")
  show ?thesis
    using assms t f by (cases r) (simp_all add: handleSaveCampaign_def)
qed

text \<open>
  C9. A save that does not end in its failure message has written exactly one row to the table
  of campaigns, with \<^verbatim>\<open>is_active\<close> false: by an insert when the draft has no id, by an
  update of the row of that id otherwise, whatever the active flag of the draft.
\<close>

theorem handleSaveCampaign_writes_inactive:
  assumes "currentCampaign st = Some cur"
    and "Alert ''Failed to save campaign. Please try again.''
           \<notin> set (snd (handleSaveCampaign now env name' st))"
  shows "\<exists>uid. user env = Some uid
     \<and> (Campaign.id cur = [] \<longrightarrow>
          Remote (Insert ''campaigns'' [campaignInsertRow now uid name' cur])
            \<in> set (snd (handleSaveCampaign now env name' st))
          \<and> campaignWrites (snd (handleSaveCampaign now env name' st)) =
              [campaignInsertRow now uid name' cur]
          \<and> map_of (campaignInsertRow now uid name' cur) ''is_active'' = Some (JBool False))
     \<and> (Campaign.id cur \<noteq> [] \<longrightarrow>
          Remote (Update ''campaigns'' (campaignUpdateRow now name' cur)
                    [(''id'', JString (Campaign.id cur))])
            \<in> set (snd (handleSaveCampaign now env name' st))
          \<and> campaignWrites (snd (handleSaveCampaign now env name' st)) =
              [campaignUpdateRow now name' cur]
          \<and> map_of (campaignUpdateRow now name' cur) ''is_active'' = Some (JBool False))"
proof -
  have ok: "\<not> isl (fst (trySaveCampaign now env name' cur))"
    using assms(2) unfolding handleSaveCampaign_cases [OF assms(1)]
    by (simp split: if_splits)
  then obtain uid where u: "user env = Some uid"
    using trySaveCampaign_no_user [of env now name' cur] by (cases "user env") simp_all
  have fx: "snd (handleSaveCampaign now env name' st) =
      snd (trySaveCampaign now env name' cur) @ snd (fetchCampaigns (refresh env) st)"
    using ok unfolding handleSaveCampaign_cases [OF assms(1)] by simp
  note w = trySaveCampaign_writes [OF u, of now name' cur]
  have writes: "campaignWrites (snd (handleSaveCampaign now env name' st)) =
      [if Campaign.id cur = [] then campaignInsertRow now uid name' cur
       else campaignUpdateRow now name' cur]"
    unfolding fx campaignWrites_append campaignWrites_fetchCampaigns
    using w [THEN conjunct1] by simp
  have sent: "hd (snd (saveCampaignRow now env uid name' cur))
      \<in> set (snd (handleSaveCampaign now env name' st))"
    unfolding fx using w [THEN conjunct2] by simp
  have i: "map_of (campaignInsertRow now uid name' cur) ''is_active'' = Some (JBool False)"
    by (simp add: campaignInsertRow_def)
  have j: "map_of (campaignUpdateRow now name' cur) ''is_active'' = Some (JBool False)"
    by (simp add: campaignUpdateRow_def)
  show ?thesis
  proof (intro exI [of _ uid] conjI impI)
    show "user env = Some uid" by (rule u)
  next
    assume e: "Campaign.id cur = []"
    show "Remote (Insert ''campaigns'' [campaignInsertRow now uid name' cur])
            \<in> set (snd (handleSaveCampaign now env name' st))"
      using sent e by (simp add: saveCampaignRow_effects)
    show "campaignWrites (snd (handleSaveCampaign now env name' st)) =
              [campaignInsertRow now uid name' cur]"
      using writes e by simp
    show "map_of (campaignInsertRow now uid name' cur) ''is_active'' = Some (JBool False)"
      by (rule i)
  next
    assume e: "Campaign.id cur \<noteq> []"
    show "Remote (Update ''campaigns'' (campaignUpdateRow now name' cur)
                    [(''id'', JString (Campaign.id cur))])
            \<in> set (snd (handleSaveCampaign now env name' st))"
      using sent e by (simp add: saveCampaignRow_effects)
    show "campaignWrites (snd (handleSaveCampaign now env name' st)) =
              [campaignUpdateRow now name' cur]"
      using writes e by simp
    show "map_of (campaignUpdateRow now name' cur) ''is_active'' = Some (JBool False)"
      by (rule j)
  qed
qed

theorem handleSaveCampaign_writes_inactive_witness:
  "currentCampaign (exEditing\<lparr>currentCampaign := Some exActive\<rparr>) = Some exActive
   \<and> isActive exActive
   \<and> Alert ''Failed to save campaign. Please try again.''
        \<notin> set (snd (handleSaveCampaign exNow exSaveOk ''Summer'' (exEditing\<lparr>currentCampaign := Some exActive\<rparr>)))
   \<and> campaignWrites (snd (handleSaveCampaign exNow exSaveOk ''Summer'' (exEditing\<lparr>currentCampaign := Some exActive\<rparr>))) =
        [campaignUpdateRow exNow ''Summer'' exActive]
   \<and> map_of (campaignUpdateRow exNow ''Summer'' exActive) ''is_active'' = Some (JBool False)"
proof -
  let ?st = "exEditing\<lparr>currentCampaign := Some exActive\<rparr>"
  have c: "currentCampaign ?st = Some exActive" by simp
  have i: "isActive exActive" by (simp add: exActive_def)
  have n: "Campaign.id exActive \<noteq> []" by (simp add: exActive_def)
  have a: "Alert ''Failed to save campaign. Please try again.''
        \<notin> set (snd (handleSaveCampaign exNow exSaveOk ''Summer'' ?st))"
    by (simp add: handleSaveCampaign_def trySaveCampaign_def saveCampaignRow_def
        insertTemplates_def insertEmails_def deleteAssociations_def fetchCampaigns_def
        exSaveOk_def exActive_def exCampaign_def)
  from handleSaveCampaign_writes_inactive [OF c a] n
  have "campaignWrites (snd (handleSaveCampaign exNow exSaveOk ''Summer'' ?st)) =
          [campaignUpdateRow exNow ''Summer'' exActive]
        \<and> map_of (campaignUpdateRow exNow ''Summer'' exActive) ''is_active'' = Some (JBool False)"
    by blast
  with c i a show ?thesis by (intro conjI) simp_all
qed

section \<open>Failure of a remote call\<close>

text \<open>
  When the call of the store or the sign-in check fails, the toggle, the deletion of a
  campaign and the removal of a Google credential leave the state as it was and show a message;
  a failed insert of a Google credential leaves the credential list as it was; a save whose
  body throws leaves the state as it was and shows a message.
\<close>

lemma handleToggleActive_failure:
  "fst (handleToggleActive now (Some err) cid active st) = st"
  by (simp add: handleToggleActive_def Let_def split: option.split)

lemma handleDeleteCampaign_failure:
  "handleDeleteCampaign (Some err) cid st =
     (st, [Remote (Delete ''campaigns'' [(''id'', JString cid)]),
           Alert ''Failed to delete campaign. Please try again.''])"
  by (simp add: handleDeleteCampaign_def)

lemma handleRemoveGoogleEmail_failure:
  assumes "removeUser env = None \<or> removeError env \<noteq> None"
  shows "fst (handleRemoveGoogleEmail env addr st) = st
         \<and> last (snd (handleRemoveGoogleEmail env addr st)) =
             Alert ''Failed to remove email. Please try again.''"
  using assms by (auto simp: handleRemoveGoogleEmail_def Let_def split: option.split)

lemma handleAddGoogleEmail_failure:
  assumes "addUser env = None \<or> insertError env \<noteq> None"
  shows "googleEmails (fst (handleAddGoogleEmail env st)) = googleEmails st"
  using assms by (auto simp: handleAddGoogleEmail_def Let_def split: option.split)

lemma handleSaveCampaign_thrown:
  assumes "currentCampaign st = Some cur" and "isl (fst (trySaveCampaign now env name' cur))"
  shows "handleSaveCampaign now env name' st =
           (st, snd (trySaveCampaign now env name' cur)
                  @ [Alert ''Failed to save campaign. Please try again.''])"
  using assms(2) by (simp add: handleSaveCampaign_cases [OF assms(1)])

text \<open>The full trace of a save of the sample draft when every call succeeds.\<close>

lemma exEditing_save:
  "handleSaveCampaign exNow exSaveOk ''Spring'' exEditing =
     (exEditing\<lparr>campaigns := [exCampaign\<lparr>isActive := False\<rparr>], currentCampaign := None\<rparr>,
      [Remote AuthGetUser,
       Remote (Update ''campaigns'' (campaignUpdateRow exNow ''Spring'' exCampaign) [(''id'', JString ''c1'')]),
       Remote (Delete ''campaign_templates'' [(''campaign_id'', JString ''c1'')]),
       Remote (Delete ''campaign_emails'' [(''campaign_id'', JString ''c1'')]),
       Remote (Insert ''campaign_templates''
         [[(''campaign_id'', JString ''c1''), (''template_id'', JString ''t1''),
           (''template_type'', JString ''body'')]]),
       Remote (Insert ''campaign_emails''
         [[(''campaign_id'', JString ''c1''), (''email_address'', JString ''a@gmail.com''),
           (''provider'', JString ''gmail''), (''sending_rate'', JNumber (Number 1440)),
           (''updated_at'', JString exNow)]]),
       Remote AuthGetUser,
       Remote (Select ''campaigns'' [(''user_id'', JString ''u1'')])])"
  by (simp add: handleSaveCampaign_def trySaveCampaign_def saveCampaignRow_def insertTemplates_def
      insertEmails_def deleteAssociations_def fetchCampaigns_def exSaveOk_def exEditing_def
      exCampaign_def exSender_def exHtml_def rateOrDefault_def templateTypeName_def providerName_def)

text \<open>
  A save whose refresh fails shows the message of the refresh and still closes the draft.
\<close>

lemma handleSaveCampaign_failed_refresh:
  "alertsOf (snd (handleSaveCampaign exNow exRefreshFails ''Spring'' exEditing)) =
      [''Failed to load campaigns. Please try again.'']
   \<and> currentCampaign (fst (handleSaveCampaign exNow exRefreshFails ''Spring'' exEditing)) = None"
  by (simp add: handleSaveCampaign_def trySaveCampaign_def saveCampaignRow_def insertTemplates_def
      insertEmails_def deleteAssociations_def fetchCampaigns_def exSaveOk_def exEditing_def
      exCampaign_def exRefreshFails_def alertsOf_def)

text \<open>
  C6. A failed remote call surfaces an error and leaves the state in memory as it was. The save
  does not when the delete of the template associations fails: the result of that call is
  dropped, no message is shown, and the save goes on to refresh the list and close the draft.
\<close>

theorem handleSaveCampaign_ignores_failed_delete:
  "currentCampaign exEditing = Some exCampaign
   \<and> deleteTemplatesError exDeleteFails = Some exError
   \<and> alertsOf (snd (handleSaveCampaign exNow exDeleteFails ''Spring'' exEditing)) = []
   \<and> currentCampaign (fst (handleSaveCampaign exNow exDeleteFails ''Spring'' exEditing)) = None
   \<and> fst (handleSaveCampaign exNow exDeleteFails ''Spring'' exEditing) \<noteq> exEditing"
  by (simp add: handleSaveCampaign_def trySaveCampaign_def saveCampaignRow_def insertTemplates_def
      insertEmails_def deleteAssociations_def fetchCampaigns_def exSaveOk_def exEditing_def
      exCampaign_def exDeleteFails_def alertsOf_def)

section \<open>Adding a Google credential\<close>

lemma ex_valid_inputs:
  "validateEmail ''a@gmail.com''" "validateEmail ''c@gmail.com''"
  "validateAppPassword ''abcdefgh12345678''" "\<not> validateAppPassword ''short''"
  by (simp_all add: validateEmail_def validateAppPassword_def isSpace_def isAlnum_def)

text \<open>
  C8. For a submission that passes the two format checks: when its address is in the cached
  list, the handler sets the error \<^verbatim>\<open>This email is already in the list\<close>, calls nothing and
  leaves the list as it was; when the address is not in the list and the insert answers with
  code 23505, it sets the error \<^verbatim>\<open>This email is already registered\<close> and leaves the list as
  it was, whereas any other error of the insert gives the general failure message.
\<close>

theorem handleAddGoogleEmail_duplicates:
  assumes "validateEmail (newEmail st)" and "validateAppPassword (newAppPassword st)"
  shows "(newEmail st \<in> GoogleEmail.address ` set (googleEmails st) \<longrightarrow>
            handleAddGoogleEmail env st =
              (st\<lparr>emailError := ''This email is already in the list''\<rparr>, []))
         \<and> (newEmail st \<notin> GoogleEmail.address ` set (googleEmails st)
            \<and> addUser env = Some uid \<and> insertError env = Some err \<and> code err = ''23505'' \<longrightarrow>
            handleAddGoogleEmail env st =
              (st\<lparr>emailError := ''This email is already registered''\<rparr>,
               [Remote AuthGetUser,
                Remote (Insert ''google_smtp_emails''
                  [[(''user_id'', JString uid), (''address'', JString (newEmail st)),
                    (''app_password'', JString (newAppPassword st))]])]))
         \<and> (newEmail st \<notin> GoogleEmail.address ` set (googleEmails st)
            \<and> addUser env = Some uid \<and> insertError env = Some err \<and> code err \<noteq> ''23505'' \<longrightarrow>
            handleAddGoogleEmail env st =
              (st,
               [Remote AuthGetUser,
                Remote (Insert ''google_smtp_emails''
                  [[(''user_id'', JString uid), (''address'', JString (newEmail st)),
                    (''app_password'', JString (newAppPassword st))]]),
                Alert ''Failed to add email. Please try again.'']))"
proof -
  have m: "list_ex (\<lambda>email. GoogleEmail.address email = newEmail st) (googleEmails st)
           \<longleftrightarrow> newEmail st \<in> GoogleEmail.address ` set (googleEmails st)"
    unfolding list_ex_iff image_iff by metis
  show ?thesis
    unfolding handleAddGoogleEmail_def m using assms
    by (simp add: Let_def del: String.char.inject list.inject)
qed

theorem handleAddGoogleEmail_duplicates_witness:
  "validateEmail (newEmail exTabDuplicate) \<and> validateAppPassword (newAppPassword exTabDuplicate)
   \<and> newEmail exTabDuplicate \<in> GoogleEmail.address ` set (googleEmails exTabDuplicate)
   \<and> handleAddGoogleEmail exAddOk exTabDuplicate =
        (exTabDuplicate\<lparr>emailError := ''This email is already in the list''\<rparr>, [])
   \<and> validateEmail (newEmail exTabFresh) \<and> validateAppPassword (newAppPassword exTabFresh)
   \<and> newEmail exTabFresh \<notin> GoogleEmail.address ` set (googleEmails exTabFresh)
   \<and> handleAddGoogleEmail exAddConflict exTabFresh =
        (exTabFresh\<lparr>emailError := ''This email is already registered''\<rparr>,
         [Remote AuthGetUser,
          Remote (Insert ''google_smtp_emails''
            [[(''user_id'', JString ''u1''), (''address'', JString (newEmail exTabFresh)),
              (''app_password'', JString (newAppPassword exTabFresh))]])])"
proof -
  have v1: "validateEmail (newEmail exTabDuplicate)"
    and p1: "validateAppPassword (newAppPassword exTabDuplicate)"
    by (simp_all add: exTabDuplicate_def exTab_def ex_valid_inputs)
  have d1: "newEmail exTabDuplicate \<in> GoogleEmail.address ` set (googleEmails exTabDuplicate)"
    by (simp add: exTabDuplicate_def exTab_def exGoogle_def)
  have v2: "validateEmail (newEmail exTabFresh)"
    and p2: "validateAppPassword (newAppPassword exTabFresh)"
    by (simp_all add: exTabFresh_def exTab_def ex_valid_inputs)
  have d2: "newEmail exTabFresh \<notin> GoogleEmail.address ` set (googleEmails exTabFresh)"
    by (simp add: exTabFresh_def exTab_def exGoogle_def)
  have e: "addUser exAddConflict = Some ''u1'' \<and> insertError exAddConflict = Some exConflict
           \<and> code exConflict = ''23505''"
    by (simp add: exAddConflict_def exConflict_def)
  have r1: "handleAddGoogleEmail exAddOk exTabDuplicate =
        (exTabDuplicate\<lparr>emailError := ''This email is already in the list''\<rparr>, [])"
    using handleAddGoogleEmail_duplicates [OF v1 p1, where env = exAddOk,
        THEN conjunct1, rule_format, OF d1] .
  have r2: "handleAddGoogleEmail exAddConflict exTabFresh =
        (exTabFresh\<lparr>emailError := ''This email is already registered''\<rparr>,
         [Remote AuthGetUser,
          Remote (Insert ''google_smtp_emails''
            [[(''user_id'', JString ''u1''), (''address'', JString (newEmail exTabFresh)),
              (''app_password'', JString (newAppPassword exTabFresh))]])])"
    using handleAddGoogleEmail_duplicates [OF v2 p2, where env = exAddConflict
        and uid = "''u1''" and err = exConflict,
        THEN conjunct2, THEN conjunct1, rule_format, OF conjI [OF d2 e]] .
  from v1 p1 d1 r1 v2 p2 d2 r2 show ?thesis by (intro conjI)
qed

text \<open>
  The format checks come first: an address of the cached list submitted with a password of
  five characters gets the password error, not the duplicate error.
\<close>

theorem handleAddGoogleEmail_password_first_counterexample:
  "newEmail exTab \<in> GoogleEmail.address ` set (googleEmails exTab)
   \<and> handleAddGoogleEmail exAddOk exTab =
       (exTab\<lparr>passwordError := ''App password must be 16 characters long''\<rparr>, [])
   \<and> emailError (fst (handleAddGoogleEmail exAddOk exTab)) \<noteq> ''This email is already in the list''"
  by (simp add: handleAddGoogleEmail_def exTab_def exGoogle_def ex_valid_inputs)

end
